theory Spec2Isabelle
  imports Main
begin

section \<open>Python values\<close>

text \<open>
  A Python \<^verbatim>\<open>str\<close> is a sequence of Unicode code points and is modelled as a list of
  natural numbers; a \<^verbatim>\<open>bytes\<close> object is a list of 8-bit characters. \<open>str\<close> turns an
  ASCII literal into the Python string of the same characters.
\<close>

type_synonym pystr = "nat list"
type_synonym bytes = "char list"

definition str :: "string \<Rightarrow> pystr" where
  "str s = map of_char s"

datatype exn = FileNotFoundError | EOFError

text \<open>The operator \<^verbatim>\<open>in\<close> on strings: \<open>contains s t\<close> is \<^verbatim>\<open>s in t\<close>.\<close>

fun starts_with :: "'a list \<Rightarrow> 'a list \<Rightarrow> bool" where
  "starts_with [] t = True"
| "starts_with (x # s) [] = False"
| "starts_with (x # s) (y # t) = (x = y \<and> starts_with s t)"

fun contains :: "'a list \<Rightarrow> 'a list \<Rightarrow> bool" where
  "contains s [] = (s = [])"
| "contains s (y # t) = (starts_with s (y # t) \<or> contains s t)"

text \<open>\<^verbatim>\<open>str(n)\<close> for a non-negative integer: its decimal digits.\<close>

fun dec :: "nat \<Rightarrow> pystr" where
  "dec n = (if n < 10 then [48 + n] else dec (n div 10) @ [48 + n mod 10])"

declare dec.simps [simp del]

text \<open>
  \<^verbatim>\<open>str.strip()\<close> removes the characters for which \<^verbatim>\<open>str.isspace\<close> holds from
  both ends.
\<close>

definition is_space :: "nat \<Rightarrow> bool" where
  "is_space c \<longleftrightarrow>
     (9 \<le> c \<and> c \<le> 13) \<or> (28 \<le> c \<and> c \<le> 32) \<or> c = 0x85 \<or> c = 0xA0 \<or> c = 0x1680 \<or>
     (0x2000 \<le> c \<and> c \<le> 0x200A) \<or> c = 0x2028 \<or> c = 0x2029 \<or> c = 0x202F \<or>
     c = 0x205F \<or> c = 0x3000"

definition strip :: "pystr \<Rightarrow> pystr" where
  "strip s = rev (dropWhile is_space (rev (dropWhile is_space s)))"

text \<open>
  \<^verbatim>\<open>str.lower()\<close>, on ASCII letters. The scripts compare its result with
  \<^verbatim>\<open>'y'\<close> only, and no character outside ASCII has a lower-case form with a
  \<^verbatim>\<open>y\<close> in it, so other characters are left as they are.
\<close>

definition lower :: "pystr \<Rightarrow> pystr" where
  "lower s = map (\<lambda>c. if 65 \<le> c \<and> c \<le> 90 then c + 32 else c) s"

text \<open>
  \<^verbatim>\<open>str.encode()\<close>: the UTF-8 encoding of a string (the code points of the strings
  encoded here are below the surrogate range or are ASCII, so the encoder's error case
  is not modelled).
\<close>

definition utf8_char :: "nat \<Rightarrow> bytes" where
  "utf8_char c =
     (if c < 0x80 then [char_of c]
      else if c < 0x800 then [char_of (0xC0 + c div 64), char_of (0x80 + c mod 64)]
      else if c < 0x10000 then
        [char_of (0xE0 + c div 4096), char_of (0x80 + (c div 64) mod 64),
         char_of (0x80 + c mod 64)]
      else
        [char_of (0xF0 + c div 262144), char_of (0x80 + (c div 4096) mod 64),
         char_of (0x80 + (c div 64) mod 64), char_of (0x80 + c mod 64)])"

definition encode :: "pystr \<Rightarrow> bytes" where
  "encode s = concat (map utf8_char s)"

text \<open>
  \<^verbatim>\<open>urllib.parse.quote\<close> with its default \<^verbatim>\<open>safe='/'\<close>: letters, digits and
  \<^verbatim>\<open>_.-~/\<close> are kept, every other character becomes \<^verbatim>\<open>%XX\<close> for each byte of its
  UTF-8 encoding.
\<close>

definition always_safe :: "nat \<Rightarrow> bool" where
  "always_safe c \<longleftrightarrow>
     (65 \<le> c \<and> c \<le> 90) \<or> (97 \<le> c \<and> c \<le> 122) \<or> (48 \<le> c \<and> c \<le> 57) \<or>
     c \<in> {95, 46, 45, 126, 47}"

definition hex_digit :: "nat \<Rightarrow> nat" where
  "hex_digit d = (if d < 10 then 48 + d else 55 + d)"

definition percent_byte :: "char \<Rightarrow> pystr" where
  "percent_byte b = [37, hex_digit (of_char b div 16), hex_digit (of_char b mod 16)]"

definition quote :: "pystr \<Rightarrow> pystr" where
  "quote s = concat (map (\<lambda>c. if always_safe c then [c]
                               else concat (map percent_byte (utf8_char c))) s)"

text \<open>
  The format \<^verbatim>\<open>{n / 1024:.1f}\<close> of an integer \<open>n\<close>. True division of integers gives
  the double nearest to the quotient: \<open>n\<close> rounded to 53 significant bits (ties to
  even), scaled by \<open>2\<^sup>-\<^sup>1\<^sup>0\<close>. The format \<^verbatim>\<open>.1f\<close> prints the decimal with one
  fractional digit nearest to that double, ties to even.
\<close>

definition round_half_even :: "nat \<Rightarrow> nat \<Rightarrow> nat" where
  "round_half_even a b =
     (let q = a div b; r = a mod b
      in if 2 * r < b then q else if b < 2 * r then q + 1
         else if even q then q else q + 1)"

fun bit_length :: "nat \<Rightarrow> nat" where
  "bit_length n = (if n = 0 then 0 else Suc (bit_length (n div 2)))"

declare bit_length.simps [simp del]

definition to_double :: "nat \<Rightarrow> nat" where
  "to_double n =
     (if n < 2 ^ 53 then n
      else let e = bit_length n - 53 in round_half_even n (2 ^ e) * 2 ^ e)"

definition format_kb :: "nat \<Rightarrow> pystr" where
  "format_kb n =
     (let t = round_half_even (to_double n * 10) 1024
      in dec (t div 10) @ str ''.'' @ dec (t mod 10))"

section \<open>The download server\<close>

text \<open>
  The file system the server sees is a map from path to file contents;
  \<^verbatim>\<open>os.path.getsize\<close> and \<^verbatim>\<open>open(..., "rb").read()\<close> raise on a missing path.
\<close>

type_synonym filesystem = "pystr \<rightharpoonup> bytes"

definition PORT :: nat where
  "PORT = 8000"

definition ZIP_FILE :: pystr where
  "ZIP_FILE = str ''accounting-android-project.zip''"

definition path_exists :: "filesystem \<Rightarrow> pystr \<Rightarrow> bool" where
  "path_exists fs p \<longleftrightarrow> fs p \<noteq> None"

definition getsize :: "filesystem \<Rightarrow> pystr \<Rightarrow> exn + nat" where
  "getsize fs p = (case fs p of None \<Rightarrow> Inl FileNotFoundError | Some bs \<Rightarrow> Inr (length bs))"

definition read_file :: "filesystem \<Rightarrow> pystr \<Rightarrow> exn + bytes" where
  "read_file fs p = (case fs p of None \<Rightarrow> Inl FileNotFoundError | Some bs \<Rightarrow> Inr bs)"

text \<open>
  What a handler has put on the connection: the status line, the headers the handler
  sent itself (the \<^verbatim>\<open>Server\<close> and \<^verbatim>\<open>Date\<close> headers that \<^verbatim>\<open>send_response\<close>
  adds are left out), whether the header block was ended, and the bytes written
  to \<^verbatim>\<open>wfile\<close> after it.
\<close>

record response =
  status :: "nat option"
  headers :: "(pystr \<times> pystr) list"
  headers_ended :: bool
  body :: bytes

definition no_response :: response where
  "no_response = \<lparr>status = None, headers = [], headers_ended = False, body = []\<rparr>"

definition send_response :: "nat \<Rightarrow> response \<Rightarrow> response" where
  "send_response code r = r\<lparr>status := Some code\<rparr>"

definition send_header :: "pystr \<Rightarrow> pystr \<Rightarrow> response \<Rightarrow> response" where
  "send_header k v r = r\<lparr>headers := headers r @ [(k, v)]\<rparr>"

definition end_headers :: "response \<Rightarrow> response" where
  "end_headers r = r\<lparr>headers_ended := True\<rparr>"

definition wfile_write :: "bytes \<Rightarrow> response \<Rightarrow> response" where
  "wfile_write bs r = r\<lparr>body := body r @ bs\<rparr>"

text \<open>
  The page of the root path: the text of the f-string before and after its one
  replacement field, with non-ASCII characters given by code point.
\<close>

definition html_before :: pystr where
  \<open>html_before = concat
    [str ''\<newline>'',
     str ''            <!DOCTYPE html>\<newline>'',
     str ''            <html>\<newline>'',
     str ''            <head>\<newline>'',
     str ''                <meta charset="UTF-8">\<newline>'',
     str ''                <meta name="viewport" content="width=device-width, initial-scale=1.0">\<newline>'',
     str ''                <title>'' @ [0x62F, 0x627, 0x646, 0x644, 0x648, 0x62F] @ str '' '' @ [0x67E, 0x631, 0x648, 0x698, 0x647] @ str '' '' @ [0x627, 0x646, 0x62F, 0x631, 0x648, 0x6CC, 0x62F] @ str ''</title>\<newline>'',
     str ''                <style>\<newline>'',
     str ''                    body {\<newline>'',
     str ''                        font-family: Arial, sans-serif;\<newline>'',
     str ''                        background-color: #121212;\<newline>'',
     str ''                        color: #ffffff;\<newline>'',
     str ''                        display: flex;\<newline>'',
     str ''                        justify-content: center;\<newline>'',
     str ''                        align-items: center;\<newline>'',
     str ''                        height: 100vh;\<newline>'',
     str ''                        margin: 0;\<newline>'',
     str ''                        direction: rtl;\<newline>'',
     str ''                    }\<newline>'',
     str ''                    .container {\<newline>'',
     str ''                        text-align: center;\<newline>'',
     str ''                        background-color: #1e1e1e;\<newline>'',
     str ''                        padding: 2rem;\<newline>'',
     str ''                        border-radius: 8px;\<newline>'',
     str ''                        box-shadow: 0 4px 6px rgba(0, 0, 0, 0.1);\<newline>'',
     str ''                        max-width: 500px;\<newline>'',
     str ''                        width: 100%;\<newline>'',
     str ''                    }\<newline>'',
     str ''                    h1 {\<newline>'',
     str ''                        color: #0eead9;\<newline>'',
     str ''                        margin-bottom: 1rem;\<newline>'',
     str ''                    }\<newline>'',
     str ''                    p {\<newline>'',
     str ''                        margin-bottom: 1.5rem;\<newline>'',
     str ''                        font-size: 1.1rem;\<newline>'',
     str ''                        line-height: 1.5;\<newline>'',
     str ''                    }\<newline>'',
     str ''                    .download-btn {\<newline>'',
     str ''                        background-color: #0eead9;\<newline>'',
     str ''                        color: #121212;\<newline>'',
     str ''                        border: none;\<newline>'',
     str ''                        padding: 0.8rem 1.5rem;\<newline>'',
     str ''                        font-size: 1.2rem;\<newline>'',
     str ''                        font-weight: bold;\<newline>'',
     str ''                        border-radius: 4px;\<newline>'',
     str ''                        cursor: pointer;\<newline>'',
     str ''                        text-decoration: none;\<newline>'',
     str ''                        display: inline-block;\<newline>'',
     str ''                        transition: background-color 0.3s;\<newline>'',
     str ''                    }\<newline>'',
     str ''                    .download-btn:hover {\<newline>'',
     str ''                        background-color: #0ac2b2;\<newline>'',
     str ''                    }\<newline>'',
     str ''                    .file-info {\<newline>'',
     str ''                        margin-top: 1rem;\<newline>'',
     str ''                        font-size: 0.9rem;\<newline>'',
     str ''                        color: #bbbbbb;\<newline>'',
     str ''                    }\<newline>'',
     str ''                </style>\<newline>'',
     str ''            </head>\<newline>'',
     str ''            <body>\<newline>'',
     str ''                <div class="container">\<newline>'',
     str ''                    <h1>'' @ [0x62F, 0x627, 0x646, 0x644, 0x648, 0x62F] @ str '' '' @ [0x67E, 0x631, 0x648, 0x698, 0x647] @ str '' '' @ [0x627, 0x646, 0x62F, 0x631, 0x648, 0x6CC, 0x62F] @ str '' '' @ [0x627, 0x67E, 0x644, 0x6CC, 0x6A9, 0x6CC, 0x634, 0x646] @ str '' '' @ [0x62D, 0x633, 0x627, 0x628, 0x62F, 0x627, 0x631, 0x6CC] @ str ''</h1>\<newline>'',
     str ''                    <p>\<newline>'',
     str ''                        '' @ [0x641, 0x627, 0x6CC, 0x644] @ str '' '' @ [0x67E, 0x631, 0x648, 0x698, 0x647] @ str '' '' @ [0x627, 0x646, 0x62F, 0x631, 0x648, 0x6CC, 0x62F] @ str '' '' @ [0x628, 0x631, 0x627, 0x6CC] @ str '' '' @ [0x633, 0x627, 0x62E, 0x62A] @ str '' APK '' @ [0x622, 0x645, 0x627, 0x62F, 0x647] @ str '' '' @ [0x62F, 0x627, 0x646, 0x644, 0x648, 0x62F] @ str '' '' @ [0x627, 0x633, 0x62A] @ str ''. '' @ [0x67E, 0x633] @ str '' '' @ [0x627, 0x632] @ str '' '' @ [0x62F, 0x627, 0x646, 0x644, 0x648, 0x62F, 0x60C] @ str '' '' @ [0x641, 0x627, 0x6CC, 0x644] @ str '' '' @ [0x631, 0x627] @ str '' '' @ [0x627, 0x633, 0x62A, 0x62E, 0x631, 0x627, 0x62C] @ str '' '' @ [0x6A9, 0x631, 0x62F, 0x647] @ str '' '' @ [0x648] @ str '' '' @ [0x637, 0x628, 0x642] @ str '' '' @ [0x631, 0x627, 0x647, 0x646, 0x645, 0x627, 0x6CC] @ str ''\<newline>'',
     str ''                        <code>ANDROID_BUILD_INSTRUCTIONS.md</code> '' @ [0x628, 0x631, 0x627, 0x6CC] @ str '' '' @ [0x633, 0x627, 0x62E, 0x62A] @ str '' '' @ [0x641, 0x627, 0x6CC, 0x644] @ str '' APK '' @ [0x627, 0x642, 0x62F, 0x627, 0x645] @ str '' '' @ [0x6A9, 0x646, 0x6CC, 0x62F] @ str ''.\<newline>'',
     str ''                    </p>\<newline>'',
     str ''                    <a href="/download" class="download-btn">'' @ [0x62F, 0x627, 0x646, 0x644, 0x648, 0x62F] @ str '' '' @ [0x641, 0x627, 0x6CC, 0x644] @ str '' '' @ [0x67E, 0x631, 0x648, 0x698, 0x647] @ str '' '' @ [0x627, 0x646, 0x62F, 0x631, 0x648, 0x6CC, 0x62F] @ str ''</a>\<newline>'',
     str ''                    <p class="file-info">\<newline>'',
     str ''                        '' @ [0x62D, 0x62C, 0x645] @ str '' '' @ [0x641, 0x627, 0x6CC, 0x644] @ str '': '']\<close>

definition html_after :: pystr where
  \<open>html_after = concat
    [str '' '' @ [0x6A9, 0x6CC, 0x644, 0x648, 0x628, 0x627, 0x6CC, 0x62A] @ str ''\<newline>'',
     str ''                    </p>\<newline>'',
     str ''                </div>\<newline>'',
     str ''            </body>\<newline>'',
     str ''            </html>\<newline>'',
     str ''            '']\<close>

definition html :: "nat \<Rightarrow> pystr" where
  "html n = html_before @ format_kb n @ html_after"

text \<open>
  \<^verbatim>\<open>DownloadHandler.do_GET\<close>: the result is the exception that left the handler, if
  any, and what had been sent by then.
\<close>

definition do_GET :: "filesystem \<Rightarrow> pystr \<Rightarrow> exn option \<times> response" where
  "do_GET fs path =
     (if path = str ''/'' then
        let r = end_headers (send_header (str ''Content-type'') (str ''text/html'')
                  (send_response 200 no_response))
        in case getsize fs ZIP_FILE of
             Inl e \<Rightarrow> (Some e, r)
           | Inr n \<Rightarrow> (None, wfile_write (encode (html n)) r)
      else if path = str ''/download'' then
        if path_exists fs ZIP_FILE then
          let r = end_headers
                   (send_header (str ''Content-Disposition'')
                      (str ''attachment; filename='' @ quote ZIP_FILE)
                   (send_header (str ''Content-type'') (str ''application/zip'')
                   (send_response 200 no_response)))
          in case read_file fs ZIP_FILE of
               Inl e \<Rightarrow> (Some e, r)
             | Inr bs \<Rightarrow> (None, wfile_write bs r)
        else
          (None, wfile_write ''404 - File not found''
             (end_headers (send_header (str ''Content-type'') (str ''text/html'')
             (send_response 404 no_response))))
      else
        (None, wfile_write ''404 - Page not found''
           (end_headers (send_header (str ''Content-type'') (str ''text/html'')
           (send_response 404 no_response)))))"

text \<open>
  The \<^verbatim>\<open>__main__\<close> block: the server is started only when the file exists at
  that moment; otherwise the process exits with status 1.
\<close>

datatype startup = Exit nat | Serving

definition main_block :: "filesystem \<Rightarrow> startup" where
  "main_block fs = (if \<not> path_exists fs ZIP_FILE then Exit 1 else Serving)"

section \<open>The build-and-upload orchestrator\<close>

text \<open>
  The state the orchestrator works on: the process environment, the paths that exist,
  the lines the operator is going to enter at the prompts, the label that
  \<^verbatim>\<open>datetime.now().strftime("v%Y.%m.%d-%H%M%S")\<close> yields, and the commands run so
  far, each with the environment it was given. Printing is not modelled. Paths are
  POSIX paths. The last line of the script carries stray text after the call of
  \<^verbatim>\<open>main\<close>; the functions are modelled as they are written.
\<close>

record world =
  environ :: "pystr \<rightharpoonup> pystr"
  files :: "pystr set"
  stdin :: "pystr list"
  now_label :: pystr
  history :: "(pystr \<times> (pystr \<rightharpoonup> pystr)) list"

text \<open>
  An external command is a black box: from the command line and the state it is run in
  it gives an exit status, what it printed and the paths that exist afterwards.
\<close>

record completed =
  returncode :: int
  stdout :: pystr
  stderr :: pystr
  files_after :: "pystr set"

type_synonym shell = "pystr \<Rightarrow> world \<Rightarrow> completed"

text \<open>\<^verbatim>\<open>input()\<close>: the next line of the operator, or \<^verbatim>\<open>EOFError\<close> when there is none.\<close>

definition input :: "world \<Rightarrow> exn + (pystr \<times> world)" where
  "input w = (case stdin w of [] \<Rightarrow> Inl EOFError | l # ls \<Rightarrow> Inr (l, w\<lparr>stdin := ls\<rparr>))"

text \<open>Python's truth value of \<^verbatim>\<open>None\<close> or a string.\<close>

definition truthy :: "pystr option \<Rightarrow> bool" where
  "truthy v = (case v of None \<Rightarrow> False | Some s \<Rightarrow> s \<noteq> [])"

text \<open>\<^verbatim>\<open>os.path.join\<close> of two components.\<close>

definition path_join :: "pystr \<Rightarrow> pystr \<Rightarrow> pystr" where
  "path_join a b =
     (if starts_with (str ''/'') b then b
      else if a = [] \<or> last a = 47 then a @ b
      else a @ str ''/'' @ b)"

text \<open>
  \<^verbatim>\<open>execute_command\<close>: \<^verbatim>\<open>check=True\<close> raises on a non-zero exit status, which
  the function turns into \<^verbatim>\<open>None\<close>.
\<close>

definition execute_command :: "shell \<Rightarrow> pystr \<Rightarrow> world \<Rightarrow> pystr option \<times> world" where
  "execute_command sh command w =
     (let result = sh command w;
          w' = w\<lparr>files := files_after result,
                 history := history w @ [(command, environ w)]\<rparr>
      in if returncode result \<noteq> 0 then (None, w')
         else (Some (strip (stdout result)), w'))"

definition ensure_github_token :: "world \<Rightarrow> exn + (bool \<times> world)" where
  "ensure_github_token w =
     (if \<not> truthy (environ w (str ''GITHUB_TOKEN'')) then
        case input w of
          Inl e \<Rightarrow> Inl e
        | Inr (l, w1) \<Rightarrow>
            let token = strip l in
            if token \<noteq> [] then
              let w2 = w1\<lparr>environ := (environ w1)(str ''GITHUB_TOKEN'' \<mapsto> token)\<rparr> in
              case input w2 of
                Inl e \<Rightarrow> Inl e
              | Inr (l2, w3) \<Rightarrow>
                  let save = lower (strip l2) in
                  if save = str ''y'' then
                    case input w3 of
                      Inl e \<Rightarrow> Inl e
                    | Inr (l3, w4) \<Rightarrow> Inr (True, w4)
                  else Inr (True, w3)
            else Inr (False, w1)
      else Inr (True, w))"

definition ensure_github_repo :: "world \<Rightarrow> exn + (bool \<times> world)" where
  "ensure_github_repo w =
     (if \<not> truthy (environ w (str ''GITHUB_REPO'')) \<or>
         environ w (str ''GITHUB_REPO'') = Some (str ''username/repo'') then
        case input w of
          Inl e \<Rightarrow> Inl e
        | Inr (l, w1) \<Rightarrow>
            let repo = strip l in
            if repo \<noteq> [] \<and> contains (str ''/'') repo then
              let w2 = w1\<lparr>environ := (environ w1)(str ''GITHUB_REPO'' \<mapsto> repo)\<rparr> in
              case input w2 of
                Inl e \<Rightarrow> Inl e
              | Inr (l2, w3) \<Rightarrow>
                  let save = lower (strip l2) in
                  if save = str ''y'' then
                    case input w3 of
                      Inl e \<Rightarrow> Inl e
                    | Inr (l3, w4) \<Rightarrow> Inr (True, w4)
                  else Inr (True, w3)
            else Inr (False, w1)
      else Inr (True, w))"

definition apk_path :: pystr where
  "apk_path = path_join (str ''bin'') (str ''accountingapp-debug.apk'')"

text \<open>
  \<^verbatim>\<open>create_apk\<close>. When the artifact exists the operator is asked; the first part
  computes whether the function returns there (\<open>keep\<close>), the second part is the
  build that follows otherwise.
\<close>

definition create_apk :: "shell \<Rightarrow> world \<Rightarrow> exn + (pystr option \<times> world)" where
  "create_apk sh w =
     (case (if apk_path \<in> files w then
              case input w of
                Inl e \<Rightarrow> Inl e
              | Inr (l, w1) \<Rightarrow> let rebuild = lower (strip l) in Inr (rebuild \<noteq> str ''y'', w1)
            else Inr (False, w)) of
        Inl e \<Rightarrow> Inl e
      | Inr (keep, w1) \<Rightarrow>
          if keep then Inr (Some apk_path, w1)
          else
            let (result, w2) = execute_command sh (str ''python create_apk.py'') w1 in
            if truthy result \<and> apk_path \<in> files w2 then Inr (Some apk_path, w2)
            else Inr (None, w2))"

definition SUCCESS_TEXT :: pystr where
  "SUCCESS_TEXT =
     [0x622, 0x67E, 0x644, 0x648, 0x62F, 0x20, 0x628, 0x627, 0x20, 0x645, 0x648, 0x641,
      0x642, 0x6CC, 0x62A, 0x20, 0x627, 0x646, 0x62C, 0x627, 0x645, 0x20, 0x634, 0x62F]"

definition upload_to_github :: "shell \<Rightarrow> pystr \<Rightarrow> world \<Rightarrow> exn + (bool \<times> world)" where
  "upload_to_github sh path w =
     (if path \<notin> files w then Inr (False, w)
      else
        case ensure_github_token w of
          Inl e \<Rightarrow> Inl e
        | Inr (ok1, w1) \<Rightarrow>
            if \<not> ok1 then Inr (False, w1)
            else
              case ensure_github_repo w1 of
                Inl e \<Rightarrow> Inl e
              | Inr (ok2, w2) \<Rightarrow>
                  if \<not> ok2 then Inr (False, w2)
                  else
                    let version = now_label w2;
                        w3 = w2\<lparr>environ := (environ w2)(str ''RELEASE_VERSION'' \<mapsto> version)\<rparr>;
                        (result, w4) =
                          execute_command sh (str ''python github_upload.py '' @ path) w3
                    in case result of
                         None \<Rightarrow> Inr (False, w4)
                       | Some out \<Rightarrow>
                           if out \<noteq> [] \<and> contains SUCCESS_TEXT out then Inr (True, w4)
                           else Inr (False, w4))"

text \<open>
  \<^verbatim>\<open>main\<close> returns nothing; the model returns which of its three endings was
  reached.
\<close>

datatype ending = No_Apk | Upload_Succeeded | Upload_Failed

definition main :: "shell \<Rightarrow> world \<Rightarrow> exn + (ending \<times> world)" where
  "main sh w =
     (case create_apk sh w of
        Inl e \<Rightarrow> Inl e
      | Inr (None, w1) \<Rightarrow> Inr (No_Apk, w1)
      | Inr (Some path, w1) \<Rightarrow>
          if path = [] then Inr (No_Apk, w1)
          else
            case upload_to_github sh path w1 of
              Inl e \<Rightarrow> Inl e
            | Inr (upload_result, w2) \<Rightarrow>
                if upload_result then Inr (Upload_Succeeded, w2)
                else Inr (Upload_Failed, w2))"

section \<open>Example states and commands\<close>

text \<open>
  A state with an empty environment, no files and no operator input, and two kinds of
  external command: one that leaves the files alone and one that creates the build
  artifact; both exit with the given status after printing the given text.
\<close>

definition example_world :: world where
  "example_world =
     \<lparr>environ = Map.empty, files = {}, stdin = [],
      now_label = str ''v2024.01.01-120000'', history = []\<rparr>"

definition example_idle :: "int \<Rightarrow> pystr \<Rightarrow> shell" where
  "example_idle code out command w =
     \<lparr>returncode = code, stdout = out, stderr = [], files_after = files w\<rparr>"

definition example_build :: "int \<Rightarrow> pystr \<Rightarrow> shell" where
  "example_build code out command w =
     \<lparr>returncode = code, stdout = out, stderr = [],
      files_after = insert apk_path (files w)\<rparr>"

section \<open>Properties of the string operations\<close>

lemma starts_with_append: "starts_with s (s @ t)"
  by (induction s) auto

lemma contains_prefix: "starts_with s t \<Longrightarrow> contains s t"
  by (cases t) (auto elim: starts_with.elims)

lemma contains_append_left: "contains s t \<Longrightarrow> contains s (p @ t)"
  by (induction p) auto

lemma contains_middle: "contains s (p @ s @ q)"
  by (simp add: contains_append_left contains_prefix starts_with_append)

lemma starts_with_iff: "starts_with s t \<longleftrightarrow> (\<exists>q. t = s @ q)"
  by (induction s t rule: starts_with.induct) auto

lemma contains_iff: "contains s t \<longleftrightarrow> (\<exists>p q. t = p @ s @ q)"
proof (induction t)
  case Nil
  then show ?case by simp
next
  case (Cons y t)
  show ?case
  proof
    assume "contains s (y # t)"
    then consider "starts_with s (y # t)" | "contains s t" by auto
    then show "\<exists>p q. y # t = p @ s @ q"
    proof cases
      case 1
      then obtain q where "y # t = s @ q" by (auto simp: starts_with_iff)
      then have "y # t = [] @ s @ q" by simp
      then show ?thesis by blast
    next
      case 2
      with Cons obtain p q where "t = p @ s @ q" by blast
      then have "y # t = (y # p) @ s @ q" by simp
      then show ?thesis by blast
    qed
  next
    assume "\<exists>p q. y # t = p @ s @ q"
    then obtain p q where pq: "y # t = p @ s @ q" by blast
    show "contains s (y # t)"
    proof (cases p)
      case Nil
      with pq have "starts_with s (y # t)" by (auto simp: starts_with_iff)
      then show ?thesis by simp
    next
      case (Cons a p')
      with pq have "t = p' @ s @ q" by simp
      then have "contains s t" using Cons.IH by blast
      then show ?thesis by simp
    qed
  qed
qed

lemma contains_rev: "contains (rev s) (rev t) = contains s t"
proof -
  have "(\<exists>p q. rev t = p @ rev s @ q) \<longleftrightarrow> (\<exists>p q. t = p @ s @ q)"
  proof
    assume "\<exists>p q. rev t = p @ rev s @ q"
    then obtain p q where "rev t = p @ rev s @ q" by blast
    then have "rev (rev t) = rev (p @ rev s @ q)" by simp
    then have "t = rev q @ s @ rev p" by simp
    then show "\<exists>p q. t = p @ s @ q" by blast
  next
    assume "\<exists>p q. t = p @ s @ q"
    then obtain p q where "t = p @ s @ q" by blast
    then have "rev t = rev q @ rev s @ rev p" by simp
    then show "\<exists>p q. rev t = p @ rev s @ q" by blast
  qed
  then show ?thesis by (simp add: contains_iff)
qed

lemma contains_dropWhile:
  assumes "s \<noteq> []" and "\<not> P (hd s)"
  shows "contains s (dropWhile P t) = contains s t"
proof (induction t)
  case Nil
  then show ?case by simp
next
  case (Cons y t)
  show ?case
  proof (cases "P y")
    case True
    with assms have "\<not> starts_with s (y # t)"
      by (cases s) auto
    with True Cons show ?thesis by simp
  next
    case False
    then show ?thesis by simp
  qed
qed

lemma contains_strip:
  assumes "s \<noteq> []" and "\<not> is_space (hd s)" and "\<not> is_space (last s)"
  shows "contains s (strip t) = contains s t"
proof -
  have "contains s (strip t) = contains (rev s) (dropWhile is_space (rev (dropWhile is_space t)))"
    unfolding strip_def by (metis contains_rev rev_rev_ident)
  also have "\<dots> = contains (rev s) (rev (dropWhile is_space t))"
    using assms by (intro contains_dropWhile) (simp_all add: hd_rev)
  also have "\<dots> = contains s (dropWhile is_space t)"
    by (rule contains_rev)
  also have "\<dots> = contains s t"
    using assms by (intro contains_dropWhile)
  finally show ?thesis .
qed

lemma contains_nonempty: "s \<noteq> [] \<Longrightarrow> contains s t \<Longrightarrow> t \<noteq> []"
  by (cases t) auto

lemma slash_in_strip: "contains (str ''/'') (strip l) = contains (str ''/'') l"
  by (rule contains_strip) (simp_all add: str_def is_space_def)

lemma success_in_strip: "contains SUCCESS_TEXT (strip l) = contains SUCCESS_TEXT l"
  by (rule contains_strip) (simp_all add: SUCCESS_TEXT_def is_space_def)

lemma encode_append: "encode (a @ b) = encode a @ encode b"
  by (simp add: encode_def)

text \<open>Rounding to the nearest multiple: the result is at most half a unit away.\<close>

lemma round_half_even_near:
  assumes "0 < b"
  shows "2 * \<bar>int b * int (round_half_even a b) - int a\<bar> \<le> int b"
proof -
  define q where "q = a div b"
  define r where "r = a mod b"
  have a: "a = b * q + r" and r: "r < b"
    using assms by (simp_all add: q_def r_def)
  have "round_half_even a b = q \<and> 2 * r \<le> b \<or> round_half_even a b = q + 1 \<and> b \<le> 2 * r"
    by (auto simp: round_half_even_def Let_def q_def r_def)
  then show ?thesis
  proof
    assume h: "round_half_even a b = q \<and> 2 * r \<le> b"
    then have "int b * int (round_half_even a b) - int a = - int r"
      by (simp add: a)
    with h show ?thesis by simp
  next
    assume h: "round_half_even a b = q + 1 \<and> b \<le> 2 * r"
    then have "int b * int (round_half_even a b) - int a = int b - int r"
      by (simp add: a algebra_simps)
    with h r show ?thesis by simp
  qed
qed

text \<open>
  The figure printed for \<open>n\<close> bytes is a number of tenths of a kilobyte \<open>t\<close>, and for
  sizes below \<open>2\<^sup>5\<^sup>3\<close> bytes \<open>t / 10\<close> is within 0.05 of \<open>n / 1024\<close>.
\<close>

lemma format_kb_accuracy:
  "\<exists>t. format_kb n = dec (t div 10) @ str ''.'' @ dec (t mod 10) \<and>
       (n < 2 ^ 53 \<longrightarrow> \<bar>1024 * int t - 10 * int n\<bar> \<le> 512)"
proof -
  let ?t = "round_half_even (to_double n * 10) 1024"
  have "2 * \<bar>int 1024 * int ?t - int (to_double n * 10)\<bar> \<le> int 1024"
    by (rule round_half_even_near) simp
  then have "n < 2 ^ 53 \<longrightarrow> \<bar>1024 * int ?t - 10 * int n\<bar> \<le> 512"
    by (cases "n < 2 ^ 53") (simp_all add: to_double_def)
  then show ?thesis
    by (intro exI [of _ ?t]) (simp add: format_kb_def Let_def)
qed

lemma format_kb_1536: "format_kb 1536 = str ''1.5''"
  by (simp add: format_kb_def to_double_def round_half_even_def dec.simps str_def)

section \<open>Properties of the download server\<close>

lemma quote_ZIP_FILE: "quote ZIP_FILE = ZIP_FILE"
  by (simp add: quote_def ZIP_FILE_def str_def always_safe_def)

lemma root_is_not_download: "str ''/download'' \<noteq> str ''/''"
  by (simp add: str_def)

text \<open>
  C8. A GET request whose path is neither \<^verbatim>\<open>/\<close> nor \<^verbatim>\<open>/download\<close> is answered
  with status 404: no exception leaves the handler, the header block is complete and
  the body is the fixed not-found text.
\<close>

theorem other_path_404:
  "path \<noteq> str ''/'' \<and> path \<noteq> str ''/download'' \<longrightarrow>
     fst (do_GET fs path) = None \<and>
     status (snd (do_GET fs path)) = Some 404 \<and>
     headers_ended (snd (do_GET fs path)) \<and>
     body (snd (do_GET fs path)) = ''404 - Page not found''"
  by (simp add: do_GET_def send_response_def send_header_def end_headers_def
      wfile_write_def no_response_def)

theorem other_path_404_witness:
  "str ''/index.html'' \<noteq> str ''/'' \<and> str ''/index.html'' \<noteq> str ''/download'' \<and>
   fst (do_GET Map.empty (str ''/index.html'')) = None \<and>
   status (snd (do_GET Map.empty (str ''/index.html''))) = Some 404"
  using other_path_404 [of "str ''/index.html''" Map.empty]
  by (simp add: str_def)

text \<open>
  C1. A GET request for \<^verbatim>\<open>/download\<close>: when the file exists with contents \<open>bs\<close>,
  the response has status 200, a \<^verbatim>\<open>Content-Disposition\<close> header
  \<^verbatim>\<open>attachment; filename=accounting-android-project.zip\<close> and the body \<open>bs\<close>,
  byte for byte; when the file does not exist, the response has status 404.
\<close>

theorem download_path:
  "(fs ZIP_FILE = Some bs \<longrightarrow>
      do_GET fs (str ''/download'') =
        (None, \<lparr>status = Some 200,
                headers = [(str ''Content-type'', str ''application/zip''),
                           (str ''Content-Disposition'',
                            str ''attachment; filename=accounting-android-project.zip'')],
                headers_ended = True,
                body = bs\<rparr>)) \<and>
   (fs ZIP_FILE = None \<longrightarrow>
      fst (do_GET fs (str ''/download'')) = None \<and>
      status (snd (do_GET fs (str ''/download''))) = Some 404)"
proof -
  have hdr: "str ''attachment; filename='' @ quote ZIP_FILE =
             str ''attachment; filename=accounting-android-project.zip''"
    by (simp add: quote_ZIP_FILE) (simp add: ZIP_FILE_def str_def)
  show ?thesis
    unfolding do_GET_def hdr
    by (simp add: root_is_not_download path_exists_def read_file_def send_response_def
        send_header_def end_headers_def wfile_write_def no_response_def)
qed

theorem download_path_witness:
  "[ZIP_FILE \<mapsto> ''PK''] ZIP_FILE = Some ''PK'' \<and>
   do_GET [ZIP_FILE \<mapsto> ''PK''] (str ''/download'') =
        (None, \<lparr>status = Some 200,
                headers = [(str ''Content-type'', str ''application/zip''),
                           (str ''Content-Disposition'',
                            str ''attachment; filename=accounting-android-project.zip'')],
                headers_ended = True,
                body = ''PK''\<rparr>) \<and>
   (Map.empty :: filesystem) ZIP_FILE = None \<and>
   status (snd (do_GET Map.empty (str ''/download''))) = Some 404"
  using download_path [of "[ZIP_FILE \<mapsto> ''PK'']" "''PK''"] download_path [of Map.empty bs]
  by simp

text \<open>
  C9. The branch for \<^verbatim>\<open>/\<close> asks for the size of the file without checking that
  the file exists; the only check is the one of the \<^verbatim>\<open>__main__\<close> block. So when
  the server was started with the file present (\<open>fs0\<close>) and the file is gone at
  the time of the request (\<open>fs1\<close>), the size query raises after status 200 and the
  header block have been sent, and no body is written. The branch ends without an
  exception exactly when the file exists.
\<close>

theorem root_missing_file:
  "(main_block fs0 = Serving \<and> fs1 ZIP_FILE = None \<longrightarrow>
      fs0 ZIP_FILE \<noteq> None \<and>
      do_GET fs1 (str ''/'') =
        (Some FileNotFoundError,
         \<lparr>status = Some 200, headers = [(str ''Content-type'', str ''text/html'')],
          headers_ended = True, body = []\<rparr>)) \<and>
   (fst (do_GET fs (str ''/'')) = None \<longleftrightarrow> path_exists fs ZIP_FILE)"
  by (cases "fs ZIP_FILE")
    (auto simp add: main_block_def path_exists_def do_GET_def getsize_def send_response_def
      send_header_def end_headers_def no_response_def split: if_splits)

theorem root_missing_file_witness:
  "main_block [ZIP_FILE \<mapsto> ''PK''] = Serving \<and> (Map.empty :: filesystem) ZIP_FILE = None \<and>
   do_GET Map.empty (str ''/'') =
       (Some FileNotFoundError,
        \<lparr>status = Some 200, headers = [(str ''Content-type'', str ''text/html'')],
         headers_ended = True, body = []\<rparr>)"
  using root_missing_file [of "[ZIP_FILE \<mapsto> ''PK'']" Map.empty]
  by (simp add: main_block_def path_exists_def)

lemma no_1536_in_page:
  "\<not> contains (encode (dec 1536)) (encode html_before @ encode (str ''1.5'') @ encode html_after)"
  by (simp add: html_before_def html_after_def str_def encode_def utf8_char_def dec.simps)

text \<open>
  C2, as stated, fails. With a file of 1536 bytes the page is sent with status 200, but
  its body does not contain \<^verbatim>\<open>1536\<close>: the figure in it is \<^verbatim>\<open>1.5\<close>. With no
  file the handler sends status 200 and no body at all.
\<close>

theorem root_page_counterexample:
  "length (replicate 1536 (CHR 0x00)) = 1536 \<and>
   fst (do_GET [ZIP_FILE \<mapsto> replicate 1536 (CHR 0x00)] (str ''/'')) = None \<and>
   status (snd (do_GET [ZIP_FILE \<mapsto> replicate 1536 (CHR 0x00)] (str ''/''))) = Some 200 \<and>
   \<not> contains (encode (dec 1536))
       (body (snd (do_GET [ZIP_FILE \<mapsto> replicate 1536 (CHR 0x00)] (str ''/'')))) \<and>
   fst (do_GET Map.empty (str ''/'')) = Some FileNotFoundError \<and>
   body (snd (do_GET Map.empty (str ''/''))) = []"
  by (simp add: do_GET_def getsize_def send_response_def send_header_def end_headers_def
      wfile_write_def no_response_def html_def encode_append format_kb_1536 no_1536_in_page)

text \<open>
  C2, amended. For a GET request to \<^verbatim>\<open>/\<close> made while the file exists, the handler
  responds with status 200 and a page that contains the size of the file in
  kilobytes with one decimal place, computed from the length of the file at the time
  of the request: the page text around the figure is fixed, and (for sizes below
  \<open>2\<^sup>5\<^sup>3\<close> bytes) the figure is within 0.05 of the byte size divided by 1024.
\<close>

theorem root_page:
  "fs ZIP_FILE = Some bs \<longrightarrow>
     do_GET fs (str ''/'') =
       (None,
        \<lparr>status = Some 200, headers = [(str ''Content-type'', str ''text/html'')],
         headers_ended = True,
         body = encode html_before @ encode (format_kb (length bs)) @ encode html_after\<rparr>) \<and>
     contains (encode (format_kb (length bs))) (body (snd (do_GET fs (str ''/'')))) \<and>
     (\<exists>t. format_kb (length bs) = dec (t div 10) @ str ''.'' @ dec (t mod 10) \<and>
          (length bs < 2 ^ 53 \<longrightarrow> \<bar>1024 * int t - 10 * int (length bs)\<bar> \<le> 512))"
  using format_kb_accuracy [of "length bs"]
  by (simp add: do_GET_def getsize_def send_response_def send_header_def end_headers_def
      wfile_write_def no_response_def html_def encode_append contains_middle)

theorem root_page_witness:
  "[ZIP_FILE \<mapsto> replicate 1536 (CHR 0x00)] ZIP_FILE = Some (replicate 1536 (CHR 0x00)) \<and>
   length (replicate 1536 (CHR 0x00)) < (2::nat) ^ 53 \<and>
   status (snd (do_GET [ZIP_FILE \<mapsto> replicate 1536 (CHR 0x00)] (str ''/''))) = Some 200 \<and>
   contains (encode (str ''1.5''))
     (body (snd (do_GET [ZIP_FILE \<mapsto> replicate 1536 (CHR 0x00)] (str ''/''))))"
  using root_page [of "[ZIP_FILE \<mapsto> replicate 1536 (CHR 0x00)]" "replicate 1536 (CHR 0x00)"]
  by (simp add: format_kb_1536 contains_middle)

section \<open>Properties of the orchestrator\<close>

lemma apk_path_literal: "apk_path = str ''bin/accountingapp-debug.apk''"
  by (simp add: apk_path_def path_join_def str_def)

lemma apk_path_nonempty: "apk_path \<noteq> []"
  by (simp add: apk_path_literal str_def)

lemma execute_command_result:
  "execute_command sh command w =
     (if returncode (sh command w) = 0 then Some (strip (stdout (sh command w))) else None,
      w\<lparr>files := files_after (sh command w),
        history := history w @ [(command, environ w)]\<rparr>)"
  by (simp add: execute_command_def Let_def)

lemma strip_upper_y: "lower (strip (str ''Y'')) = str ''y''"
  by (simp add: lower_def strip_def str_def is_space_def)

lemma strip_n: "lower (strip (str ''n'')) \<noteq> str ''y''"
  by (simp add: lower_def strip_def str_def is_space_def)

text \<open>
  C3, as stated, fails: the exit status and the output of the build command are
  checked. A build command that creates the artifact and exits with status 0 without
  printing anything, and one that creates the artifact, prints a line and exits with
  status 1, both make \<^verbatim>\<open>create_apk\<close> return \<^verbatim>\<open>None\<close> although the
  artifact exists afterwards.
\<close>

theorem create_apk_build_counterexample:
  "create_apk (example_build 0 []) example_world =
     Inr (None,
          example_world\<lparr>files := {apk_path},
                         history := [(str ''python create_apk.py'', Map.empty)]\<rparr>) \<and>
   create_apk (example_build 1 (str ''APK built'')) example_world =
     Inr (None,
          example_world\<lparr>files := {apk_path},
                         history := [(str ''python create_apk.py'', Map.empty)]\<rparr>)"
  by (simp add: create_apk_def execute_command_result truthy_def example_world_def
      example_build_def strip_def)

text \<open>
  C3, amended. When the artifact is absent, or present and the operator's answer, stripped
  and lower-cased, is \<^verbatim>\<open>y\<close>, \<^verbatim>\<open>create_apk\<close> runs the build command once and
  returns the artifact path if and only if the command exited with status 0, its
  stripped output is not empty and the artifact exists afterwards; otherwise it
  returns \<^verbatim>\<open>None\<close>.
\<close>

theorem create_apk_build:
  "apk_path \<notin> files w \<or> (\<exists>l rest. stdin w = l # rest \<and> lower (strip l) = str ''y'') \<longrightarrow>
     (let w1 = (if apk_path \<in> files w then w\<lparr>stdin := tl (stdin w)\<rparr> else w);
          p = sh (str ''python create_apk.py'') w1;
          w2 = w1\<lparr>files := files_after p,
                  history := history w1 @ [(str ''python create_apk.py'', environ w1)]\<rparr>
      in create_apk sh w =
           Inr (if returncode p = 0 \<and> strip (stdout p) \<noteq> [] \<and> apk_path \<in> files_after p
                then Some apk_path else None, w2))"
  by (auto simp add: create_apk_def input_def execute_command_result truthy_def Let_def)

theorem create_apk_build_witness:
  "apk_path \<notin> files example_world \<and>
   create_apk (example_build 0 (str ''APK built'')) example_world =
     Inr (Some apk_path,
          example_world\<lparr>files := {apk_path},
                         history := [(str ''python create_apk.py'', Map.empty)]\<rparr>) \<and>
   lower (strip (str ''Y'')) = str ''y'' \<and>
   create_apk (example_idle 1 (str ''failed''))
       (example_world\<lparr>files := {apk_path}, stdin := [str ''Y'']\<rparr>) =
     Inr (None,
          example_world\<lparr>files := {apk_path}, stdin := [],
                         history := [(str ''python create_apk.py'', Map.empty)]\<rparr>)"
  using create_apk_build [of example_world "example_build 0 (str ''APK built'')"]
    create_apk_build [of "example_world\<lparr>files := {apk_path}, stdin := [str ''Y'']\<rparr>"
      "example_idle 1 (str ''failed'')"]
  by (simp add: example_world_def example_build_def example_idle_def Let_def strip_upper_y)
     (simp add: strip_def str_def is_space_def)

lemma key_distinct:
  "str ''GITHUB_TOKEN'' \<noteq> str ''GITHUB_REPO''"
  "str ''RELEASE_VERSION'' \<noteq> str ''GITHUB_TOKEN''"
  "str ''RELEASE_VERSION'' \<noteq> str ''GITHUB_REPO''"
  by (simp_all add: str_def)

lemma example_configured:
  "ensure_github_token
     (example_world\<lparr>environ := [str ''GITHUB_TOKEN'' \<mapsto> str ''ghp_abc'',
                                  str ''GITHUB_REPO'' \<mapsto> str ''me/app''],
                     files := {apk_path}\<rparr>) =
   Inr (True, example_world\<lparr>environ := [str ''GITHUB_TOKEN'' \<mapsto> str ''ghp_abc'',
                                  str ''GITHUB_REPO'' \<mapsto> str ''me/app''],
                     files := {apk_path}\<rparr>)"
  "ensure_github_repo
     (example_world\<lparr>environ := [str ''GITHUB_TOKEN'' \<mapsto> str ''ghp_abc'',
                                  str ''GITHUB_REPO'' \<mapsto> str ''me/app''],
                     files := {apk_path}\<rparr>) =
   Inr (True, example_world\<lparr>environ := [str ''GITHUB_TOKEN'' \<mapsto> str ''ghp_abc'',
                                  str ''GITHUB_REPO'' \<mapsto> str ''me/app''],
                     files := {apk_path}\<rparr>)"
  by (simp_all add: ensure_github_token_def ensure_github_repo_def truthy_def
      example_world_def key_distinct) (simp_all add: str_def)

text \<open>
  C5, as stated, fails: the answer is stripped and lower-cased before it is compared
  with \<^verbatim>\<open>y\<close>. With the artifact present and the answer \<^verbatim>\<open>Y\<close>, which is
  not \<^verbatim>\<open>y\<close>, the build command is run; here it fails, and \<^verbatim>\<open>create_apk\<close>
  returns \<^verbatim>\<open>None\<close> instead of the path of the existing artifact.
\<close>

theorem create_apk_keep_counterexample:
  "str ''Y'' \<noteq> str ''y'' \<and>
   create_apk (example_idle 1 [])
       (example_world\<lparr>files := {apk_path}, stdin := [str ''Y'']\<rparr>) =
     Inr (None,
          example_world\<lparr>files := {apk_path}, stdin := [],
                         history := [(str ''python create_apk.py'', Map.empty)]\<rparr>)"
  by (simp add: create_apk_def input_def execute_command_result truthy_def example_world_def
      example_idle_def strip_upper_y) (simp add: str_def)

text \<open>
  C5, amended. If the artifact exists and the operator's answer to the rebuild prompt,
  stripped of surrounding whitespace and lower-cased, is anything other than
  \<^verbatim>\<open>y\<close>, then \<^verbatim>\<open>create_apk\<close> returns the path of the existing artifact
  having only consumed the answer (no command is run), and \<^verbatim>\<open>main\<close> goes on to
  \<^verbatim>\<open>upload_to_github\<close> with that path.
\<close>

theorem create_apk_keep:
  "apk_path \<in> files w \<and> stdin w = l # rest \<and> lower (strip l) \<noteq> str ''y'' \<longrightarrow>
     create_apk sh w = Inr (Some apk_path, w\<lparr>stdin := rest\<rparr>) \<and>
     history (w\<lparr>stdin := rest\<rparr>) = history w \<and>
     main sh w =
       (case upload_to_github sh apk_path (w\<lparr>stdin := rest\<rparr>) of
          Inl e \<Rightarrow> Inl e
        | Inr (ok, w2) \<Rightarrow> Inr (if ok then Upload_Succeeded else Upload_Failed, w2))"
  by (auto simp add: create_apk_def main_def input_def apk_path_nonempty
      split: sum.splits prod.splits)

theorem create_apk_keep_witness:
  "apk_path \<in> files (example_world\<lparr>files := {apk_path}, stdin := [str ''n'']\<rparr>) \<and>
   lower (strip (str ''n'')) \<noteq> str ''y'' \<and>
   create_apk (example_idle 0 [])
       (example_world\<lparr>files := {apk_path}, stdin := [str ''n'']\<rparr>) =
     Inr (Some apk_path, example_world\<lparr>files := {apk_path}, stdin := []\<rparr>)"
  using create_apk_keep [of "example_world\<lparr>files := {apk_path}, stdin := [str ''n'']\<rparr>"
      "str ''n''" "[]" "example_idle 0 []"]
  by (simp add: strip_n)

text \<open>
  C4. Once the upload command is reached (the artifact exists and both configuration
  checks returned \<^verbatim>\<open>True\<close>), \<^verbatim>\<open>upload_to_github\<close> returns \<^verbatim>\<open>True\<close> if
  and only if the captured output of the command is not \<^verbatim>\<open>None\<close> (the command
  exited with status 0), is not empty and contains the success text; since the success
  text neither starts nor ends with whitespace, that is the case exactly when the command
  exited with status 0 and printed the success text. In every other case it returns
  \<^verbatim>\<open>False\<close>, and it never returns \<^verbatim>\<open>True\<close> without having reached the command.
\<close>

theorem upload_success_iff:
  "(path \<in> files w \<and> ensure_github_token w = Inr (True, w1) \<and>
    ensure_github_repo w1 = Inr (True, w2) \<longrightarrow>
      (let w3 = w2\<lparr>environ := (environ w2)(str ''RELEASE_VERSION'' \<mapsto> now_label w2)\<rparr>;
           command = str ''python github_upload.py '' @ path;
           p = sh command w3;
           captured = fst (execute_command sh command w3);
           ok = (case captured of None \<Rightarrow> False
                 | Some out \<Rightarrow> out \<noteq> [] \<and> contains SUCCESS_TEXT out)
       in upload_to_github sh path w = Inr (ok, snd (execute_command sh command w3)) \<and>
          captured = (if returncode p = 0 then Some (strip (stdout p)) else None) \<and>
          (ok \<longleftrightarrow> returncode p = 0 \<and> contains SUCCESS_TEXT (stdout p)))) \<and>
   (upload_to_github sh path w = Inr (True, w') \<longrightarrow>
      path \<in> files w \<and>
      (\<exists>w1 w2. ensure_github_token w = Inr (True, w1) \<and>
               ensure_github_repo w1 = Inr (True, w2)))"
proof (intro conjI impI)
  assume h: "path \<in> files w \<and> ensure_github_token w = Inr (True, w1) \<and>
    ensure_github_repo w1 = Inr (True, w2)"
  have ne: "contains SUCCESS_TEXT s \<Longrightarrow> s \<noteq> []" for s
    by (rule contains_nonempty [of SUCCESS_TEXT]) (simp_all add: SUCCESS_TEXT_def)
  have ne': "contains SUCCESS_TEXT s \<Longrightarrow> strip s \<noteq> []" for s
    using ne [of "strip s"] by (simp add: success_in_strip)
  show "let w3 = w2\<lparr>environ := (environ w2)(str ''RELEASE_VERSION'' \<mapsto> now_label w2)\<rparr>;
           command = str ''python github_upload.py '' @ path;
           p = sh command w3;
           captured = fst (execute_command sh command w3);
           ok = (case captured of None \<Rightarrow> False
                 | Some out \<Rightarrow> out \<noteq> [] \<and> contains SUCCESS_TEXT out)
       in upload_to_github sh path w = Inr (ok, snd (execute_command sh command w3)) \<and>
          captured = (if returncode p = 0 then Some (strip (stdout p)) else None) \<and>
          (ok \<longleftrightarrow> returncode p = 0 \<and> contains SUCCESS_TEXT (stdout p))"
    using h
    by (auto simp add: upload_to_github_def execute_command_result Let_def success_in_strip
        dest: ne ne')
next
  assume "upload_to_github sh path w = Inr (True, w')"
  then show "path \<in> files w"
    by (auto simp add: upload_to_github_def split: if_splits)
next
  assume "upload_to_github sh path w = Inr (True, w')"
  then show "\<exists>w1 w2. ensure_github_token w = Inr (True, w1) \<and>
               ensure_github_repo w1 = Inr (True, w2)"
    by (auto simp add: upload_to_github_def Let_def
        split: if_splits sum.splits prod.splits option.splits)
qed

theorem upload_success_iff_witness:
  "apk_path \<in> files (example_world\<lparr>environ := [str ''GITHUB_TOKEN'' \<mapsto> str ''ghp_abc'',
                                  str ''GITHUB_REPO'' \<mapsto> str ''me/app''],
                     files := {apk_path}\<rparr>) \<and>
   map_sum id fst
     (upload_to_github (example_idle 0 (SUCCESS_TEXT @ str ''\<newline>'')) apk_path
       (example_world\<lparr>environ := [str ''GITHUB_TOKEN'' \<mapsto> str ''ghp_abc'',
                                    str ''GITHUB_REPO'' \<mapsto> str ''me/app''],
                       files := {apk_path}\<rparr>)) = Inr True \<and>
   map_sum id fst
     (upload_to_github (example_idle 0 (str ''done'')) apk_path
       (example_world\<lparr>environ := [str ''GITHUB_TOKEN'' \<mapsto> str ''ghp_abc'',
                                    str ''GITHUB_REPO'' \<mapsto> str ''me/app''],
                       files := {apk_path}\<rparr>)) = Inr False \<and>
   map_sum id fst
     (upload_to_github (example_idle 1 SUCCESS_TEXT) apk_path
       (example_world\<lparr>environ := [str ''GITHUB_TOKEN'' \<mapsto> str ''ghp_abc'',
                                    str ''GITHUB_REPO'' \<mapsto> str ''me/app''],
                       files := {apk_path}\<rparr>)) = Inr False"
proof -
  let ?w = "example_world\<lparr>environ := [str ''GITHUB_TOKEN'' \<mapsto> str ''ghp_abc'',
                                  str ''GITHUB_REPO'' \<mapsto> str ''me/app''],
                     files := {apk_path}\<rparr>"
  have f: "apk_path \<in> files ?w"
    by simp
  have a: "contains SUCCESS_TEXT (SUCCESS_TEXT @ str ''\<newline>'')"
    using contains_middle [of SUCCESS_TEXT "[]"] by simp
  have b: "\<not> contains SUCCESS_TEXT (str ''done'')"
    by (simp add: SUCCESS_TEXT_def str_def)
  note t = upload_success_iff [of apk_path ?w ?w ?w]
  show ?thesis
    using t [of "example_idle 0 (SUCCESS_TEXT @ str ''\<newline>'')"]
      t [of "example_idle 0 (str ''done'')"] t [of "example_idle 1 SUCCESS_TEXT"]
    by (simp add: example_configured Let_def example_idle_def a b execute_command_result
        success_in_strip)
qed

lemma ensure_github_token_accepts:
  assumes "\<not> truthy (environ w (str ''GITHUB_TOKEN''))"
    and "stdin w = l # a # rest"
    and "strip l \<noteq> []"
    and "lower (strip a) = str ''y'' \<longrightarrow> rest \<noteq> []"
  shows "ensure_github_token w =
           Inr (True, w\<lparr>environ := (environ w)(str ''GITHUB_TOKEN'' \<mapsto> strip l),
                        stdin := (if lower (strip a) = str ''y'' then tl rest else rest)\<rparr>)"
  using assms
  by (cases rest) (simp_all add: ensure_github_token_def input_def Let_def)

lemma ensure_github_token_rejects:
  assumes "\<not> truthy (environ w (str ''GITHUB_TOKEN''))"
    and "stdin w = l # rest"
    and "strip l = []"
  shows "ensure_github_token w = Inr (False, w\<lparr>stdin := rest\<rparr>)"
  using assms
  by (simp add: ensure_github_token_def input_def Let_def)

lemma ensure_github_repo_accepts:
  assumes "\<not> truthy (environ w (str ''GITHUB_REPO'')) \<or>
           environ w (str ''GITHUB_REPO'') = Some (str ''username/repo'')"
    and "stdin w = l # a # rest"
    and "strip l \<noteq> []" and "contains (str ''/'') (strip l)"
    and "lower (strip a) = str ''y'' \<longrightarrow> rest \<noteq> []"
  shows "ensure_github_repo w =
           Inr (True, w\<lparr>environ := (environ w)(str ''GITHUB_REPO'' \<mapsto> strip l),
                        stdin := (if lower (strip a) = str ''y'' then tl rest else rest)\<rparr>)"
  using assms
  by (cases rest) (auto simp add: ensure_github_repo_def input_def Let_def)

lemma ensure_github_repo_rejects:
  assumes "\<not> truthy (environ w (str ''GITHUB_REPO'')) \<or>
           environ w (str ''GITHUB_REPO'') = Some (str ''username/repo'')"
    and "stdin w = l # rest"
    and "strip l = [] \<or> \<not> contains (str ''/'') (strip l)"
  shows "ensure_github_repo w = Inr (False, w\<lparr>stdin := rest\<rparr>)"
  using assms
  by (auto simp add: ensure_github_repo_def input_def Let_def)



lemma slash_nonempty: "contains (str ''/'') s \<Longrightarrow> s \<noteq> []"
  by (rule contains_nonempty [of "str ''/''"]) (simp_all add: str_def)






text \<open>
  C7, as stated, fails for the token: the entered line is stripped before it is tested,
  so the non-empty token of three spaces is refused. Acceptance also needs the operator
  to answer the question that follows: a repository \<^verbatim>\<open>me/app\<close> followed by the
  end of the input ends in \<^verbatim>\<open>EOFError\<close> instead of \<^verbatim>\<open>True\<close>.
\<close>

theorem configuration_checks_counterexample:
  "str ''   '' \<noteq> [] \<and>
   environ (example_world\<lparr>stdin := [str ''   '', str ''n'']\<rparr>) (str ''GITHUB_TOKEN'') = None \<and>
   ensure_github_token (example_world\<lparr>stdin := [str ''   '', str ''n'']\<rparr>) =
     Inr (False, example_world\<lparr>stdin := [str ''n'']\<rparr>) \<and>
   contains (str ''/'') (str ''me/app'') \<and>
   ensure_github_repo (example_world\<lparr>stdin := [str ''me/app'']\<rparr>) = Inl EOFError"
  by (simp add: ensure_github_token_def ensure_github_repo_def input_def truthy_def
      example_world_def str_def strip_def is_space_def)

text \<open>
  C7, amended. When the operator is asked for the repository, the entered line is
  accepted if it is not empty and contains \<^verbatim>\<open>/\<close> and the operator answers the
  question about saving it (and, after \<^verbatim>\<open>y\<close>, the request to press Enter); every
  line that is empty or lacks \<^verbatim>\<open>/\<close> makes \<^verbatim>\<open>ensure_github_repo\<close> return
  \<^verbatim>\<open>False\<close>; nothing else about the line is checked. When the operator is asked
  for the token, the entered line is accepted, under the same condition on the answers
  that follow, whenever it is not empty after surrounding whitespace is stripped,
  whatever it consists of, and it is refused exactly when nothing but whitespace was
  entered.
\<close>

theorem configuration_checks:
  "((\<not> truthy (environ w (str ''GITHUB_REPO'')) \<or>
     environ w (str ''GITHUB_REPO'') = Some (str ''username/repo'')) \<and>
    stdin w = l # a # rest \<and> l \<noteq> [] \<and> contains (str ''/'') l \<and>
    (lower (strip a) = str ''y'' \<longrightarrow> rest \<noteq> []) \<longrightarrow>
      ensure_github_repo w =
        Inr (True, w\<lparr>environ := (environ w)(str ''GITHUB_REPO'' \<mapsto> strip l),
                     stdin := (if lower (strip a) = str ''y'' then tl rest else rest)\<rparr>)) \<and>
   ((\<not> truthy (environ w (str ''GITHUB_REPO'')) \<or>
     environ w (str ''GITHUB_REPO'') = Some (str ''username/repo'')) \<and>
    stdin w = l # others \<and> \<not> (l \<noteq> [] \<and> contains (str ''/'') l) \<longrightarrow>
      ensure_github_repo w = Inr (False, w\<lparr>stdin := others\<rparr>)) \<and>
   (\<not> truthy (environ w (str ''GITHUB_TOKEN'')) \<and>
    stdin w = l # a # rest \<and> strip l \<noteq> [] \<and>
    (lower (strip a) = str ''y'' \<longrightarrow> rest \<noteq> []) \<longrightarrow>
      ensure_github_token w =
        Inr (True, w\<lparr>environ := (environ w)(str ''GITHUB_TOKEN'' \<mapsto> strip l),
                     stdin := (if lower (strip a) = str ''y'' then tl rest else rest)\<rparr>)) \<and>
   (\<not> truthy (environ w (str ''GITHUB_TOKEN'')) \<and>
    stdin w = l # others \<and> strip l = [] \<longrightarrow>
      ensure_github_token w = Inr (False, w\<lparr>stdin := others\<rparr>))"
proof (intro conjI impI)
  assume h: "(\<not> truthy (environ w (str ''GITHUB_REPO'')) \<or>
     environ w (str ''GITHUB_REPO'') = Some (str ''username/repo'')) \<and>
    stdin w = l # a # rest \<and> l \<noteq> [] \<and> contains (str ''/'') l \<and>
    (lower (strip a) = str ''y'' \<longrightarrow> rest \<noteq> [])"
  then have "contains (str ''/'') (strip l)"
    by (simp add: slash_in_strip)
  moreover from this have "strip l \<noteq> []"
    by (rule slash_nonempty)
  ultimately show "ensure_github_repo w =
        Inr (True, w\<lparr>environ := (environ w)(str ''GITHUB_REPO'' \<mapsto> strip l),
                     stdin := (if lower (strip a) = str ''y'' then tl rest else rest)\<rparr>)"
    using h ensure_github_repo_accepts [of w l a rest] by simp
next
  assume h: "(\<not> truthy (environ w (str ''GITHUB_REPO'')) \<or>
     environ w (str ''GITHUB_REPO'') = Some (str ''username/repo'')) \<and>
    stdin w = l # others \<and> \<not> (l \<noteq> [] \<and> contains (str ''/'') l)"
  have "l = [] \<Longrightarrow> \<not> contains (str ''/'') l"
    by (simp add: str_def)
  with h have "\<not> contains (str ''/'') (strip l)"
    by (auto simp add: slash_in_strip)
  with h show "ensure_github_repo w = Inr (False, w\<lparr>stdin := others\<rparr>)"
    using ensure_github_repo_rejects [of w l others] by auto
next
  assume "\<not> truthy (environ w (str ''GITHUB_TOKEN'')) \<and>
    stdin w = l # a # rest \<and> strip l \<noteq> [] \<and>
    (lower (strip a) = str ''y'' \<longrightarrow> rest \<noteq> [])"
  then show "ensure_github_token w =
        Inr (True, w\<lparr>environ := (environ w)(str ''GITHUB_TOKEN'' \<mapsto> strip l),
                     stdin := (if lower (strip a) = str ''y'' then tl rest else rest)\<rparr>)"
    using ensure_github_token_accepts [of w l a rest] by simp
next
  assume "\<not> truthy (environ w (str ''GITHUB_TOKEN'')) \<and>
    stdin w = l # others \<and> strip l = []"
  then show "ensure_github_token w = Inr (False, w\<lparr>stdin := others\<rparr>)"
    using ensure_github_token_rejects [of w l others] by simp
qed

theorem configuration_checks_witness:
  "\<not> truthy (environ example_world (str ''GITHUB_REPO'')) \<and>
   \<not> truthy (environ example_world (str ''GITHUB_TOKEN'')) \<and>
   str '' /// '' \<noteq> [] \<and> contains (str ''/'') (str '' /// '') \<and>
   lower (strip (str ''n'')) \<noteq> str ''y'' \<and>
   ensure_github_repo (example_world\<lparr>stdin := [str '' /// '', str ''n'']\<rparr>) =
     Inr (True, example_world\<lparr>environ := [str ''GITHUB_REPO'' \<mapsto> str ''///''],
                               stdin := []\<rparr>) \<and>
   \<not> (str ''myrepo'' \<noteq> [] \<and> contains (str ''/'') (str ''myrepo'')) \<and>
   ensure_github_repo (example_world\<lparr>stdin := [str ''myrepo'']\<rparr>) =
     Inr (False, example_world\<lparr>stdin := []\<rparr>) \<and>
   strip (str ''not a token!'') \<noteq> [] \<and>
   ensure_github_token (example_world\<lparr>stdin := [str ''not a token!'', str ''n'']\<rparr>) =
     Inr (True, example_world\<lparr>environ := [str ''GITHUB_TOKEN'' \<mapsto> str ''not a token!''],
                               stdin := []\<rparr>) \<and>
   strip [] = [] \<and>
   ensure_github_token (example_world\<lparr>stdin := [[]]\<rparr>) =
     Inr (False, example_world\<lparr>stdin := []\<rparr>)"
proof -
  have s: "strip (str '' /// '') = str ''///''" "strip (str ''not a token!'') = str ''not a token!''"
    "contains (str ''/'') (str '' /// '')" "\<not> contains (str ''/'') (str ''myrepo'')"
    "strip [] = []"
    by (simp_all add: strip_def str_def is_space_def)
  have e: "environ example_world = Map.empty"
    by (simp add: example_world_def)
  show ?thesis
    using
      configuration_checks [of "example_world\<lparr>stdin := [str '' /// '', str ''n'']\<rparr>"
        "str '' /// ''" "str ''n''" "[]" "[]"]
      configuration_checks [of "example_world\<lparr>stdin := [str ''myrepo'']\<rparr>"
        "str ''myrepo''" "[]" "[]" "[]"]
      configuration_checks [of "example_world\<lparr>stdin := [str ''not a token!'', str ''n'']\<rparr>"
        "str ''not a token!''" "str ''n''" "[]" "[str ''n'']"]
      configuration_checks [of "example_world\<lparr>stdin := [[]]\<rparr>" "[]" "[]" "[]" "[]"]
    by (simp add: s e strip_n truthy_def) (simp add: str_def)
qed

text \<open>
  C10. With \<^verbatim>\<open>GITHUB_REPO\<close> set to the placeholder \<^verbatim>\<open>username/repo\<close>,
  \<^verbatim>\<open>ensure_github_repo\<close> behaves as it does with the variable absent: it gives the
  same answer and consumes the same operator input, and the two final states differ at
  most in that a refused replacement leaves the placeholder where it was. In particular
  the operator is asked: with no input left the function ends in \<^verbatim>\<open>EOFError\<close>.
  Any other value that contains \<^verbatim>\<open>/\<close> is accepted without a prompt, the state being
  left as it is.
\<close>

theorem placeholder_repo:
  "(environ w (str ''GITHUB_REPO'') = Some (str ''username/repo'') \<longrightarrow>
      ensure_github_repo w =
        map_sum id (\<lambda>(ok, w'). (ok, if ok then w' else w'\<lparr>environ := environ w\<rparr>))
          (ensure_github_repo (w\<lparr>environ := (environ w)(str ''GITHUB_REPO'' := None)\<rparr>))) \<and>
   (environ w (str ''GITHUB_REPO'') = Some (str ''username/repo'') \<and> stdin w = [] \<longrightarrow>
      ensure_github_repo w = Inl EOFError) \<and>
   (environ w (str ''GITHUB_REPO'') = Some v \<and> v \<noteq> str ''username/repo'' \<and>
    contains (str ''/'') v \<longrightarrow>
      ensure_github_repo w = Inr (True, w))"
proof (intro conjI impI)
  assume h: "environ w (str ''GITHUB_REPO'') = Some (str ''username/repo'')"
  show "ensure_github_repo w =
        map_sum id (\<lambda>(ok, w'). (ok, if ok then w' else w'\<lparr>environ := environ w\<rparr>))
          (ensure_github_repo (w\<lparr>environ := (environ w)(str ''GITHUB_REPO'' := None)\<rparr>))"
    using h
    by (simp add: ensure_github_repo_def input_def truthy_def Let_def
        split: list.splits)
next
  assume "environ w (str ''GITHUB_REPO'') = Some (str ''username/repo'') \<and> stdin w = []"
  then show "ensure_github_repo w = Inl EOFError"
    by (simp add: ensure_github_repo_def input_def)
next
  assume h: "environ w (str ''GITHUB_REPO'') = Some v \<and> v \<noteq> str ''username/repo'' \<and>
    contains (str ''/'') v"
  then have "v \<noteq> []"
    using slash_nonempty by blast
  with h show "ensure_github_repo w = Inr (True, w)"
    by (simp add: ensure_github_repo_def truthy_def)
qed

theorem placeholder_repo_witness:
  "ensure_github_repo
     (example_world\<lparr>environ := [str ''GITHUB_REPO'' \<mapsto> str ''username/repo'']\<rparr>) =
     Inl EOFError \<and>
   ensure_github_repo
     (example_world\<lparr>environ := [str ''GITHUB_REPO'' \<mapsto> str ''username/repo''],
                     stdin := [str ''me/app'', str ''n'']\<rparr>) =
     Inr (True, example_world\<lparr>environ := [str ''GITHUB_REPO'' \<mapsto> str ''me/app''],
                               stdin := []\<rparr>) \<and>
   str ''me/app'' \<noteq> str ''username/repo'' \<and> contains (str ''/'') (str ''me/app'') \<and>
   ensure_github_repo (example_world\<lparr>environ := [str ''GITHUB_REPO'' \<mapsto> str ''me/app'']\<rparr>) =
     Inr (True, example_world\<lparr>environ := [str ''GITHUB_REPO'' \<mapsto> str ''me/app'']\<rparr>)"
proof -
  have s: "str ''me/app'' \<noteq> str ''username/repo''" "contains (str ''/'') (str ''me/app'')"
    "strip (str ''me/app'') = str ''me/app''" "str ''me/app'' \<noteq> []"
    by (simp_all add: str_def strip_def is_space_def)
  have e: "environ example_world = Map.empty" "stdin example_world = []"
    by (simp_all add: example_world_def)
  show ?thesis
    using
      placeholder_repo [of "example_world\<lparr>environ := [str ''GITHUB_REPO'' \<mapsto> str ''username/repo'']\<rparr>"]
      placeholder_repo [of "example_world\<lparr>environ := [str ''GITHUB_REPO'' \<mapsto> str ''username/repo''],
                     stdin := [str ''me/app'', str ''n'']\<rparr>"]
      placeholder_repo [of "example_world\<lparr>environ := [str ''GITHUB_REPO'' \<mapsto> str ''me/app'']\<rparr>"
        "str ''me/app''"]
    by (simp add: s e ensure_github_repo_def input_def truthy_def strip_n)
qed

end
